theory Spec2Isabelle
  imports Complex_Main
begin

section \<open>The base embedder class (texar/tf/modules/embedders/embedder_base.py)\<close>

subsection \<open>Tensors, shapes and hyperparameters\<close>

text \<open>
  An entry of a shape list is a Python int (a dimension known statically) or a scalar
  tensor (a dimension known only when the graph runs), named here by a number.
\<close>

datatype dim = Static int | Dynamic nat

text \<open>
  A tensor is an object with an identity and a shape. Two tensors of the same shape are
  different objects, so the identity is part of the value.
\<close>

datatype tensor = Tensor nat "dim list"

text \<open>
  Modelled from the spec: \<open>shape_list\<close> (texar.tf.utils.shapes) is not part of this file.
  It is the shape-introspection helper: the list of the dimensions of a tensor.
\<close>

fun shape_list :: "tensor \<Rightarrow> dim list" where
  "shape_list (Tensor i ds) = ds"

text \<open>
  The hyperparameters the class reads. \<open>dropout_rate\<close> is a Python float; the code only
  compares it with zero and hands it on, so it is a real number here.
  \<open>dropout_strategy\<close> is a Python value that is a string or \<open>None\<close>.
\<close>

record hparams =
  trainable :: bool
  dropout_rate :: real
  dropout_strategy :: "string option"

text \<open>
  The arguments of \<open>tf.layers.Dropout\<close>. A noise shape is \<open>None\<close> or a list whose entries
  are \<open>None\<close> or a dimension.
\<close>

record dropout_layer =
  rate :: real
  noise_shape :: "dim option list option"

datatype error =
    ValueError string
  | AssertionError
  | AttributeError string
  | IndexError

subsection \<open>The object\<close>

text \<open>
  The part of the object that \<open>ModuleBase\<close> owns: the variable scope and the trainable
  variables registered so far.
\<close>

record module_base =
  variable_scope :: string
  trainable_variables :: "tensor set"

text \<open>
  \<open>self._dim\<close> is the list of the dimensions of one embedding vector, or the dimension
  itself when there is exactly one.
\<close>

datatype dimval = DimList "dim list" | DimScalar dim

text \<open>
  The fields of an \<open>EmbedderBase\<close>. \<open>_num_embeds\<close> is set by the constructor and holds a
  Python value that may be \<open>None\<close>. \<open>_embedding\<close>, \<open>_dim\<close> and \<open>_dim_rank\<close> are defined
  outside the constructor: \<open>None\<close> means that the attribute does not exist yet.
\<close>

record embedder =
  base :: module_base
  self_num_embeds :: "dim option"
  self_embedding :: "tensor option"
  self_dim :: "dimval option"
  self_dim_rank :: "nat option"

text \<open>
  Modelled from the spec: \<open>ModuleBase._add_trainable_variable\<close> is not part of this file.
  It registers the variable among the trainable variables of the module.
\<close>

definition add_trainable_variable :: "embedder \<Rightarrow> tensor \<Rightarrow> embedder" where
  "add_trainable_variable self v =
     self\<lparr>base := (base self)\<lparr>trainable_variables := insert v (trainable_variables (base self))\<rparr>\<rparr>"

subsection \<open>The methods\<close>

text \<open>
  \<open>__init__\<close>: \<open>ModuleBase.__init__\<close> is not part of this file and is a parameter; it
  builds the part of the object that the base class owns.
\<close>

definition EmbedderBase_init :: "('h \<Rightarrow> module_base) \<Rightarrow> dim option \<Rightarrow> 'h \<Rightarrow> embedder" where
  "EmbedderBase_init ModuleBase_init num_embeds hparams =
     \<lparr>base = ModuleBase_init hparams,
      self_num_embeds = num_embeds,
      self_embedding = None,
      self_dim = None,
      self_dim_rank = None\<rparr>"

text \<open>
  \<open>_init_parameterized_embedding\<close>. \<open>embedder_utils.get_embedding\<close> is not part of this
  file and is a parameter. A method returns its result, or the exception it raises,
  together with the object as the method leaves it: the assignments made before an
  exception stay.
\<close>

definition init_parameterized_embedding ::
  "(hparams \<Rightarrow> 'i \<Rightarrow> dim option \<Rightarrow> string \<Rightarrow> tensor) \<Rightarrow>
   embedder \<Rightarrow> 'i \<Rightarrow> dim option \<Rightarrow> hparams \<Rightarrow> (error + unit) \<times> embedder" where
  "init_parameterized_embedding get_embedding self init_value num_embeds hparams =
     (let self1 = self\<lparr>self_embedding :=
                    Some (get_embedding hparams init_value num_embeds (variable_scope (base self)))\<rparr>;
          self2 = (if trainable hparams
                   then add_trainable_variable self1 (the (self_embedding self1))
                   else self1)
      in case shape_list (the (self_embedding self2)) of
           [] \<Rightarrow> (Inl IndexError, self2)
         | n # ds \<Rightarrow>
             (let self3 = self2\<lparr>self_num_embeds := Some n\<rparr>;
                  self4 = self3\<lparr>self_dim := Some (DimList ds)\<rparr>;
                  self5 = self4\<lparr>self_dim_rank := Some (length ds)\<rparr>
              in if length ds = 1
                 then (Inr (), self5\<lparr>self_dim := Some (DimScalar (ds ! 0))\<rparr>)
                 else (Inr (), self5)))"

text \<open>Python's \<open>xs[:k]\<close>: a negative \<open>k\<close> counts from the end.\<close>

definition slice_to :: "'a list \<Rightarrow> int \<Rightarrow> 'a list" where
  "slice_to xs k = (if k < 0 then take (nat (int (length xs) + k)) xs else take (nat k) xs)"

text \<open>Python's \<open>'{}'.format(st)\<close> for a string or \<open>None\<close>.\<close>

definition format_value :: "string option \<Rightarrow> string" where
  "format_value st = (case st of None \<Rightarrow> ''None'' | Some s \<Rightarrow> s)"

text \<open>
  \<open>_get_dropout_layer\<close>. The chain of \<open>if\<close>/\<open>elif\<close> computes the noise shape or raises;
  the layer is built after it. The two assertions are checked, in the order of the
  source, before \<open>self._dim_rank\<close> is read. The argument \<open>dropout_strategy\<close> is written
  \<open>dropout_strategy'\<close>, the hyperparameter of that name being a field of \<open>hparams\<close>.
\<close>

definition get_dropout_layer ::
  "embedder \<Rightarrow> hparams \<Rightarrow> int option \<Rightarrow> tensor option \<Rightarrow> string option \<Rightarrow>
   (error + dropout_layer option) \<times> embedder" where
  "get_dropout_layer self hparams ids_rank dropout_input dropout_strategy' =
     (let st = dropout_strategy';
          st = (if st = None then dropout_strategy hparams else st)
      in if 0 < dropout_rate hparams then
           (case
              (if st = Some ''element'' then Inr None
               else if st = Some ''item'' then
                 (case dropout_input of
                    None \<Rightarrow> Inl AssertionError
                  | Some x \<Rightarrow>
                      (case ids_rank of
                         None \<Rightarrow> Inl AssertionError
                       | Some k \<Rightarrow>
                           (case self_dim_rank self of
                              None \<Rightarrow> Inl (AttributeError ''_dim_rank'')
                            | Some r \<Rightarrow>
                                Inr (Some (map Some (slice_to (shape_list x) k)
                                           @ replicate r (Some (Static 1)))))))
               else if st = Some ''item_type'' then
                 (case self_dim_rank self of
                    None \<Rightarrow> Inl (AttributeError ''_dim_rank'')
                  | Some r \<Rightarrow> Inr (Some ([None] @ replicate r (Some (Static 1)))))
               else Inl (ValueError (''Unknown dropout strategy: '' @ format_value st)))
            of
              Inl e \<Rightarrow> (Inl e, self)
            | Inr shp \<Rightarrow>
                (Inr (Some \<lparr>rate = dropout_rate hparams, noise_shape = shp\<rparr>), self))
         else (Inr None, self))"

text \<open>\<open>default_hparams\<close>: the dictionary of the default hyperparameters.\<close>

definition default_hparams :: "(string \<times> string) list" where
  "default_hparams = [(''name'', ''embedder'')]"

text \<open>The property \<open>num_embeds\<close>.\<close>

definition num_embeds :: "embedder \<Rightarrow> dim option" where
  "num_embeds self = self_num_embeds self"

text \<open>
  The calls that can be made on an object apart from \<open>_init_parameterized_embedding\<close>,
  and the object after a sequence of them.
\<close>

datatype other_call =
    Get_dropout_layer hparams "int option" "tensor option" "string option"
  | Default_hparams
  | Num_embeds

fun after_call :: "embedder \<Rightarrow> other_call \<Rightarrow> embedder" where
  "after_call self (Get_dropout_layer h ir di ds) = snd (get_dropout_layer self h ir di ds)"
| "after_call self Default_hparams = self"
| "after_call self Num_embeds = self"

fun after_calls :: "embedder \<Rightarrow> other_call list \<Rightarrow> embedder" where
  "after_calls self [] = self"
| "after_calls self (c # cs) = after_calls (after_call self c) cs"

subsection \<open>Collaborators that raise, and the outcome of a call\<close>

text \<open>
  \<open>_init_parameterized_embedding\<close> when \<open>get_embedding\<close> may raise: the exception leaves
  the method at the call, before any assignment, and the object stays as it was.
  Otherwise the method goes on with the tensor that was returned.
\<close>

definition init_parameterized_embedding_raising ::
  "(hparams \<Rightarrow> 'i \<Rightarrow> dim option \<Rightarrow> string \<Rightarrow> error + tensor) \<Rightarrow>
   embedder \<Rightarrow> 'i \<Rightarrow> dim option \<Rightarrow> hparams \<Rightarrow> (error + unit) \<times> embedder" where
  "init_parameterized_embedding_raising get_embedding self init_value num_embeds' hparams =
     (case get_embedding hparams init_value num_embeds' (variable_scope (base self)) of
        Inl e \<Rightarrow> (Inl e, self)
      | Inr table \<Rightarrow>
          init_parameterized_embedding (\<lambda>h i n s. table) self init_value num_embeds' hparams)"

text \<open>
  \<open>__init__\<close> when \<open>ModuleBase.__init__\<close> may raise: the exception leaves the constructor
  and no object is built. In both definitions the argument \<open>num_embeds\<close> is written
  \<open>num_embeds'\<close>, the property having that name.
\<close>

definition EmbedderBase_init_raising ::
  "('h \<Rightarrow> error + module_base) \<Rightarrow> dim option \<Rightarrow> 'h \<Rightarrow> error + embedder" where
  "EmbedderBase_init_raising ModuleBase_init num_embeds' hparams =
     (case ModuleBase_init hparams of
        Inl e \<Rightarrow> Inl e
      | Inr b \<Rightarrow> Inr (EmbedderBase_init (\<lambda>h. b) num_embeds' hparams))"

text \<open>
  The four operations that can be called on an object, with their arguments, and what a
  call returns or raises.
\<close>

datatype 'i operation =
    Call_init_parameterized_embedding
      "hparams \<Rightarrow> 'i \<Rightarrow> dim option \<Rightarrow> string \<Rightarrow> error + tensor" 'i "dim option" hparams
  | Call_get_dropout_layer hparams "int option" "tensor option" "string option"
  | Call_default_hparams
  | Call_num_embeds

datatype returned =
    Returned_nothing
  | Returned_layer "dropout_layer option"
  | Returned_hparams "(string \<times> string) list"
  | Returned_num_embeds "dim option"

fun call_outcome :: "embedder \<Rightarrow> 'i operation \<Rightarrow> error + returned" where
  "call_outcome self (Call_init_parameterized_embedding get_embedding init_value n h) =
     (case fst (init_parameterized_embedding_raising get_embedding self init_value n h) of
        Inl e \<Rightarrow> Inl e
      | Inr u \<Rightarrow> Inr Returned_nothing)"
| "call_outcome self (Call_get_dropout_layer h ir di ds) =
     (case fst (get_dropout_layer self h ir di ds) of
        Inl e \<Rightarrow> Inl e
      | Inr layer \<Rightarrow> Inr (Returned_layer layer))"
| "call_outcome self Call_default_hparams = Inr (Returned_hparams default_hparams)"
| "call_outcome self Call_num_embeds = Inr (Returned_num_embeds (num_embeds self))"

text \<open>
  The exceptions of a failed check of the arguments: the ValueError of a \<open>raise\<close>
  statement and the AssertionError of an \<open>assert\<close> statement. AttributeError and
  IndexError come from reading an attribute or an entry that is not there.
\<close>

fun failed_check :: "error \<Rightarrow> bool" where
  "failed_check (ValueError m) = True"
| "failed_check AssertionError = True"
| "failed_check (AttributeError a) = False"
| "failed_check IndexError = False"

fun validation_error :: "error + 'a \<Rightarrow> bool" where
  "validation_error (Inl e) = failed_check e"
| "validation_error (Inr v) = False"

text \<open>
  The strategy in force in \<open>_get_dropout_layer\<close> (lines 69-70), and whether it is one of
  the three names the method knows.
\<close>

definition known_strategy :: "string option \<Rightarrow> bool" where
  "known_strategy st = (st = Some ''element'' \<or> st = Some ''item'' \<or> st = Some ''item_type'')"

subsection \<open>Sample values\<close>

abbreviation sample_base :: module_base where
  "sample_base \<equiv> \<lparr>variable_scope = ''embedder'', trainable_variables = {}\<rparr>"

abbreviation sample_table :: tensor where
  "sample_table \<equiv> Tensor 0 [Static 5, Static 3]"

abbreviation sample_self :: embedder where
  "sample_self \<equiv>
     \<lparr>base = sample_base,
      self_num_embeds = Some (Static 5),
      self_embedding = Some sample_table,
      self_dim = Some (DimScalar (Static 3)),
      self_dim_rank = Some 1\<rparr>"

abbreviation sample_input :: tensor where
  "sample_input \<equiv> Tensor 1 [Static 64, Dynamic 0, Static 3]"

abbreviation sample_hparams :: "string option \<Rightarrow> hparams" where
  "sample_hparams st \<equiv> \<lparr>trainable = True, dropout_rate = 1 / 2, dropout_strategy = st\<rparr>"

text \<open>
  A \<open>get_embedding\<close> that rejects a table whose number of rows is not given, and a
  \<open>ModuleBase.__init__\<close> that rejects a hyperparameter it does not know.
\<close>

definition sample_get_embedding :: "hparams \<Rightarrow> unit \<Rightarrow> dim option \<Rightarrow> string \<Rightarrow> error + tensor" where
  "sample_get_embedding h init_value n scope =
     (case n of
        None \<Rightarrow> Inl (ValueError ''shape of the variable is not fully defined'')
      | Some d \<Rightarrow> Inr (Tensor 0 [d, Static 3]))"

definition sample_ModuleBase_init :: "(string \<times> string) list \<Rightarrow> error + module_base" where
  "sample_ModuleBase_init hp =
     (if set (map fst hp) \<subseteq> set (map fst default_hparams)
      then Inr sample_base
      else Inl (ValueError ''unknown hyperparameter''))"

section \<open>Properties\<close>

lemma get_dropout_layer_state: "snd (get_dropout_layer self h ir di ds) = self"
  by (simp add: get_dropout_layer_def Let_def split: option.splits sum.splits)

text \<open>
  C3: when \<open>hparams.dropout_rate\<close> is zero or less, \<open>_get_dropout_layer\<close> returns \<open>None\<close>
  (no layer) whatever the strategy is, also for a strategy that is not one of the three
  known ones: nothing is raised.
\<close>

theorem get_dropout_layer_no_rate:
  "dropout_rate h \<le> 0 \<Longrightarrow> fst (get_dropout_layer self h ir di ds) = Inr None"
  by (simp add: get_dropout_layer_def Let_def)

theorem get_dropout_layer_no_rate_witness:
  "dropout_rate \<lparr>trainable = True, dropout_rate = 0, dropout_strategy = Some ''bogus''\<rparr> \<le> 0
   \<and> fst (get_dropout_layer
            (EmbedderBase_init (\<lambda>h. \<lparr>variable_scope = ''embedder'', trainable_variables = {}\<rparr>) None ())
            \<lparr>trainable = True, dropout_rate = 0, dropout_strategy = Some ''bogus''\<rparr>
            None None (Some ''nonsense'')) = Inr None"
  using get_dropout_layer_no_rate
    [of "\<lparr>trainable = True, dropout_rate = 0, dropout_strategy = Some ''bogus''\<rparr>"
        "EmbedderBase_init (\<lambda>h. \<lparr>variable_scope = ''embedder'', trainable_variables = {}\<rparr>) None ()"
        None None "Some ''nonsense''"]
  by simp


text \<open>
  C9: \<open>_get_dropout_layer\<close> leaves the object as it is, whatever it returns or raises:
  \<open>_embedding\<close>, \<open>_num_embeds\<close>, \<open>_dim\<close> and \<open>_dim_rank\<close> (and the part owned by the
  base class) have the values they had before the call.
\<close>

theorem get_dropout_layer_frame:
  "snd (get_dropout_layer self h ir di ds) = self
   \<and> self_embedding (snd (get_dropout_layer self h ir di ds)) = self_embedding self
   \<and> self_num_embeds (snd (get_dropout_layer self h ir di ds)) = self_num_embeds self
   \<and> self_dim (snd (get_dropout_layer self h ir di ds)) = self_dim self
   \<and> self_dim_rank (snd (get_dropout_layer self h ir di ds)) = self_dim_rank self"
proof -
  have "snd (get_dropout_layer self h ir di ds) = self"
    by (simp add: get_dropout_layer_def Let_def split: option.splits sum.splits)
  then show ?thesis by simp
qed

text \<open>
  C7: \<open>_get_dropout_layer\<close> raises AssertionError exactly when the rate is positive, the
  strategy in force is 'item' and \<open>dropout_input\<close> or \<open>ids_rank\<close> is \<open>None\<close>. So with the
  strategy 'item' and a positive rate both arguments are required, and when both are
  given, or the strategy is another one, no assertion fails.
\<close>

theorem get_dropout_layer_assertions:
  "(fst (get_dropout_layer self h ir di ds) = Inl AssertionError) =
     (0 < dropout_rate h
      \<and> (if ds = None then dropout_strategy h else ds) = Some ''item''
      \<and> (di = None \<or> ir = None))"
  by (simp add: get_dropout_layer_def Let_def split: option.splits)

theorem get_dropout_layer_assertions_witness:
  "fst (get_dropout_layer sample_self (sample_hparams (Some ''item'')) (Some 2) None None)
     = Inl AssertionError
   \<and> fst (get_dropout_layer sample_self (sample_hparams (Some ''item'')) None (Some sample_input) None)
     = Inl AssertionError
   \<and> fst (get_dropout_layer sample_self (sample_hparams (Some ''item'')) (Some 2) (Some sample_input) None)
     \<noteq> Inl AssertionError
   \<and> fst (get_dropout_layer sample_self (sample_hparams (Some ''item_type'')) None None None)
     \<noteq> Inl AssertionError"
  using get_dropout_layer_assertions
          [of sample_self "sample_hparams (Some ''item'')" "Some 2" None None]
        get_dropout_layer_assertions
          [of sample_self "sample_hparams (Some ''item'')" None "Some sample_input" None]
        get_dropout_layer_assertions
          [of sample_self "sample_hparams (Some ''item'')" "Some 2" "Some sample_input" None]
        get_dropout_layer_assertions
          [of sample_self "sample_hparams (Some ''item_type'')" None None None]
  by simp

text \<open>
  C1: with a positive rate, \<open>_get_dropout_layer\<close> builds a layer of that rate whose noise
  shape is fixed by the strategy in force. For 'element' it is \<open>None\<close>. For 'item', given
  \<open>dropout_input\<close> and a rank \<open>ids_rank\<close>, it is the first \<open>ids_rank\<close> dimensions of the
  shape of \<open>dropout_input\<close> followed by \<open>_dim_rank\<close> ones. For 'item_type' it is \<open>[None]\<close>
  followed by \<open>_dim_rank\<close> ones. The three strategy names are different strings, so at
  most one case applies.
\<close>

theorem get_dropout_layer_noise_shape:
  assumes "0 < dropout_rate h"
    and "st = (if ds = None then dropout_strategy h else ds)"
  shows "(st = Some ''element'' \<longrightarrow>
            fst (get_dropout_layer self h ir di ds) =
              Inr (Some \<lparr>rate = dropout_rate h, noise_shape = None\<rparr>))
       \<and> (st = Some ''item'' \<and> di = Some x \<and> ir = Some k \<and> 0 \<le> k \<and> self_dim_rank self = Some r \<longrightarrow>
            fst (get_dropout_layer self h ir di ds) =
              Inr (Some \<lparr>rate = dropout_rate h,
                         noise_shape = Some (map Some (take (nat k) (shape_list x))
                                             @ replicate r (Some (Static 1)))\<rparr>))
       \<and> (st = Some ''item_type'' \<and> self_dim_rank self = Some r \<longrightarrow>
            fst (get_dropout_layer self h ir di ds) =
              Inr (Some \<lparr>rate = dropout_rate h,
                         noise_shape = Some (None # replicate r (Some (Static 1)))\<rparr>))"
proof -
  have element: "st = Some ''element'' \<longrightarrow>
      fst (get_dropout_layer self h ir di ds) =
        Inr (Some \<lparr>rate = dropout_rate h, noise_shape = None\<rparr>)"
    using assms by (simp add: get_dropout_layer_def Let_def)
  have item: "st = Some ''item'' \<and> di = Some x \<and> ir = Some k \<and> 0 \<le> k \<and> self_dim_rank self = Some r \<longrightarrow>
      fst (get_dropout_layer self h ir di ds) =
        Inr (Some \<lparr>rate = dropout_rate h,
                   noise_shape = Some (map Some (take (nat k) (shape_list x))
                                       @ replicate r (Some (Static 1)))\<rparr>)"
    using assms by (simp add: get_dropout_layer_def Let_def slice_to_def)
  have item_type: "st = Some ''item_type'' \<and> self_dim_rank self = Some r \<longrightarrow>
      fst (get_dropout_layer self h ir di ds) =
        Inr (Some \<lparr>rate = dropout_rate h,
                   noise_shape = Some (None # replicate r (Some (Static 1)))\<rparr>)"
    using assms by (simp add: get_dropout_layer_def Let_def)
  from element item item_type show ?thesis by blast
qed

theorem get_dropout_layer_noise_shape_witness:
  "fst (get_dropout_layer sample_self (sample_hparams (Some ''element'')) None None None) =
     Inr (Some \<lparr>rate = 1 / 2, noise_shape = None\<rparr>)
   \<and> fst (get_dropout_layer sample_self (sample_hparams (Some ''element''))
           (Some 2) (Some sample_input) (Some ''item'')) =
     Inr (Some \<lparr>rate = 1 / 2,
                noise_shape = Some [Some (Static 64), Some (Dynamic 0), Some (Static 1)]\<rparr>)
   \<and> fst (get_dropout_layer sample_self (sample_hparams (Some ''item_type'')) None None None) =
     Inr (Some \<lparr>rate = 1 / 2, noise_shape = Some [None, Some (Static 1)]\<rparr>)"
proof -
  have two: "take (nat 2) [Static 64, Dynamic 0, Static 3] = [Static 64, Dynamic 0]"
    by (simp add: nat_numeral numeral_2_eq_2)
  have one: "replicate 1 (Some (Static 1)) = [Some (Static 1)]"
    by simp
  show ?thesis
    using get_dropout_layer_noise_shape
            [of "sample_hparams (Some ''element'')" "Some ''element''" None sample_self None None]
          get_dropout_layer_noise_shape
            [of "sample_hparams (Some ''element'')" "Some ''item''" "Some ''item''" sample_self
                "Some 2" "Some sample_input" sample_input 2 1]
          get_dropout_layer_noise_shape
            [of "sample_hparams (Some ''item_type'')" "Some ''item_type''" None sample_self None None
                _ _ 1]
          two one
    by simp
qed

lemma init_parameterized_embedding_no_check:
  "\<not> validation_error (fst (init_parameterized_embedding g self iv n h))"
  by (simp add: init_parameterized_embedding_def Let_def split: list.splits)

text \<open>
  C2, as it is written, fails: with the known strategy 'item' and no \<open>dropout_input\<close>,
  \<open>_get_dropout_layer\<close> fails its first assertion, a check of the arguments that is not
  the check of the strategy; and \<open>_init_parameterized_embedding\<close> raises the ValueError
  that \<open>get_embedding\<close> raises.
\<close>

theorem only_validation_failure_counterexample:
  "fst (get_dropout_layer sample_self (sample_hparams (Some ''item'')) (Some 2) None None) =
     Inl AssertionError
   \<and> validation_error
        (fst (get_dropout_layer sample_self (sample_hparams (Some ''item'')) (Some 2) None None))
   \<and> known_strategy (Some ''item'')
   \<and> fst (init_parameterized_embedding_raising sample_get_embedding sample_self () None
            (sample_hparams None)) =
     Inl (ValueError ''shape of the variable is not fully defined'')"
  by (simp add: get_dropout_layer_def Let_def known_strategy_def
        init_parameterized_embedding_raising_def sample_get_embedding_def)

text \<open>
  C2, amended: the class has three checks of its arguments, all in \<open>_get_dropout_layer\<close>
  and all behind the test of a positive rate. A call of \<open>_get_dropout_layer\<close> raises a
  validation error exactly when the rate is positive and either the strategy in force is
  none of 'element', 'item' and 'item_type', or it is 'item' and \<open>dropout_input\<close> or
  \<open>ids_rank\<close> is \<open>None\<close>; it raises ValueError exactly in the first case, with a message
  that names the strategy. \<open>_init_parameterized_embedding\<close> and the constructor raise a
  validation error exactly when \<open>get_embedding\<close> and \<open>ModuleBase.__init__\<close> raise one, and
  \<open>default_hparams\<close> and \<open>num_embeds\<close> never do.
\<close>

theorem validation_errors_of_the_class:
  "validation_error (call_outcome self op) =
     (case op of
        Call_init_parameterized_embedding get_embedding init_value n h \<Rightarrow>
          validation_error (get_embedding h init_value n (variable_scope (base self)))
      | Call_get_dropout_layer h ir di ds \<Rightarrow>
          0 < dropout_rate h
          \<and> (\<not> known_strategy (if ds = None then dropout_strategy h else ds)
             \<or> (if ds = None then dropout_strategy h else ds) = Some ''item''
               \<and> (di = None \<or> ir = None))
      | Call_default_hparams \<Rightarrow> False
      | Call_num_embeds \<Rightarrow> False)
   \<and> ((call_outcome self (Call_get_dropout_layer h' ir' di' ds') = Inl (ValueError msg)) =
        (0 < dropout_rate h'
         \<and> \<not> known_strategy (if ds' = None then dropout_strategy h' else ds')
         \<and> msg = ''Unknown dropout strategy: ''
                  @ format_value (if ds' = None then dropout_strategy h' else ds')))
   \<and> validation_error (EmbedderBase_init_raising ModuleBase_init num hp) =
        validation_error (ModuleBase_init hp)"
proof -
  have init: "validation_error (call_outcome self (Call_init_parameterized_embedding g iv n h)) =
                validation_error (g h iv n (variable_scope (base self)))" for g iv n h
  proof (cases "g h iv n (variable_scope (base self))")
    case (Inl e)
    then show ?thesis
      by (simp add: init_parameterized_embedding_raising_def)
  next
    case (Inr table)
    have "\<not> validation_error (call_outcome self (Call_init_parameterized_embedding g iv n h))"
      using init_parameterized_embedding_no_check [of "\<lambda>h i n s. table" self iv n h] Inr
      by (cases "fst (init_parameterized_embedding (\<lambda>h i n s. table) self iv n h)")
         (simp_all add: init_parameterized_embedding_raising_def)
    with Inr show ?thesis by simp
  qed
  have dropout: "validation_error (call_outcome self (Call_get_dropout_layer h ir di ds)) =
                   (0 < dropout_rate h
                    \<and> (\<not> known_strategy (if ds = None then dropout_strategy h else ds)
                       \<or> (if ds = None then dropout_strategy h else ds) = Some ''item''
                         \<and> (di = None \<or> ir = None)))" for h ir di ds
    by (simp add: get_dropout_layer_def Let_def known_strategy_def split: option.splits)
  have first: "validation_error (call_outcome self op) =
     (case op of
        Call_init_parameterized_embedding get_embedding init_value n h \<Rightarrow>
          validation_error (get_embedding h init_value n (variable_scope (base self)))
      | Call_get_dropout_layer h ir di ds \<Rightarrow>
          0 < dropout_rate h
          \<and> (\<not> known_strategy (if ds = None then dropout_strategy h else ds)
             \<or> (if ds = None then dropout_strategy h else ds) = Some ''item''
               \<and> (di = None \<or> ir = None))
      | Call_default_hparams \<Rightarrow> False
      | Call_num_embeds \<Rightarrow> False)"
  proof (cases op)
    case (Call_init_parameterized_embedding g iv n h)
    then show ?thesis using init [of g iv n h] by simp
  next
    case (Call_get_dropout_layer h ir di ds)
    then show ?thesis using dropout [of h ir di ds] by simp
  next
    case Call_default_hparams
    then show ?thesis by simp
  next
    case Call_num_embeds
    then show ?thesis by simp
  qed
  have second: "(call_outcome self (Call_get_dropout_layer h' ir' di' ds') = Inl (ValueError msg)) =
        (0 < dropout_rate h'
         \<and> \<not> known_strategy (if ds' = None then dropout_strategy h' else ds')
         \<and> msg = ''Unknown dropout strategy: ''
                  @ format_value (if ds' = None then dropout_strategy h' else ds'))"
    by (auto simp add: get_dropout_layer_def Let_def known_strategy_def split: option.splits)
  have third: "validation_error (EmbedderBase_init_raising ModuleBase_init num hp) =
                 validation_error (ModuleBase_init hp)"
  proof (cases "ModuleBase_init hp")
    case (Inl e)
    then show ?thesis by (simp add: EmbedderBase_init_raising_def)
  next
    case (Inr b)
    then show ?thesis by (simp add: EmbedderBase_init_raising_def)
  qed
  from first second third show ?thesis by blast
qed

theorem validation_errors_of_the_class_witness:
  "validation_error (call_outcome sample_self
      (Call_get_dropout_layer (sample_hparams (Some ''element'')) None None (Some ''token'')
         :: unit operation))
   \<and> validation_error (call_outcome sample_self
      (Call_get_dropout_layer (sample_hparams (Some ''item'')) None (Some sample_input) None
         :: unit operation))
   \<and> \<not> validation_error (call_outcome sample_self
      (Call_get_dropout_layer (sample_hparams (Some ''item'')) (Some 2) (Some sample_input) None
         :: unit operation))
   \<and> validation_error (call_outcome sample_self
      (Call_init_parameterized_embedding sample_get_embedding () None (sample_hparams None)))
   \<and> \<not> validation_error (call_outcome sample_self
      (Call_init_parameterized_embedding sample_get_embedding () (Some (Static 5))
         (sample_hparams None)))
   \<and> \<not> validation_error (call_outcome sample_self (Call_num_embeds :: unit operation))
   \<and> \<not> validation_error (call_outcome sample_self (Call_default_hparams :: unit operation))
   \<and> call_outcome sample_self
        (Call_get_dropout_layer (sample_hparams None) None None None :: unit operation) =
      Inl (ValueError ''Unknown dropout strategy: None'')
   \<and> validation_error
        (EmbedderBase_init_raising sample_ModuleBase_init None [(''dim'', ''100'')])
   \<and> \<not> validation_error
        (EmbedderBase_init_raising sample_ModuleBase_init None [(''name'', ''word_embedder'')])"
proof -
  note t = validation_errors_of_the_class
             [where ModuleBase_init = sample_ModuleBase_init and num = None
                and h' = "sample_hparams None" and ir' = None and di' = None and ds' = None
                and msg = "''Unknown dropout strategy: None''" and self = sample_self]
  have bad: "validation_error (sample_ModuleBase_init [(''dim'', ''100'')])"
    by (simp add: sample_ModuleBase_init_def default_hparams_def)
  have good: "\<not> validation_error (sample_ModuleBase_init [(''name'', ''word_embedder'')])"
    by (simp add: sample_ModuleBase_init_def default_hparams_def)
  show ?thesis
    using t [where op = "Call_get_dropout_layer (sample_hparams (Some ''element'')) None None
                           (Some ''token'') :: unit operation"
               and hp = "[(''dim'', ''100'')]"]
          t [where op = "Call_get_dropout_layer (sample_hparams (Some ''item'')) None
                           (Some sample_input) None :: unit operation"
               and hp = "[(''name'', ''word_embedder'')]"]
          t [where op = "Call_get_dropout_layer (sample_hparams (Some ''item'')) (Some 2)
                           (Some sample_input) None :: unit operation"
               and hp = "[(''dim'', ''100'')]"]
          t [where op = "Call_init_parameterized_embedding sample_get_embedding () None
                           (sample_hparams None)"
               and hp = "[(''dim'', ''100'')]"]
          t [where op = "Call_init_parameterized_embedding sample_get_embedding ()
                           (Some (Static 5)) (sample_hparams None)"
               and hp = "[(''dim'', ''100'')]"]
          t [where op = "Call_num_embeds :: unit operation" and hp = "[(''dim'', ''100'')]"]
          t [where op = "Call_default_hparams :: unit operation" and hp = "[(''dim'', ''100'')]"]
          bad good
    by (simp add: known_strategy_def format_value_def sample_get_embedding_def)
qed

lemma after_calls_state: "after_calls self cs = self"
proof (induction cs arbitrary: self)
  case Nil
  show ?case by simp
next
  case (Cons c cs)
  have "after_call self c = self"
    by (cases c) (simp_all add: get_dropout_layer_state)
  with Cons show ?case by simp
qed

text \<open>
  C4: when the table that \<open>get_embedding\<close> returns has a first dimension,
  \<open>_init_parameterized_embedding\<close> returns normally and leaves \<open>_num_embeds\<close> equal to that
  first dimension, \<open>_dim_rank\<close> equal to the rank of the table minus one, and \<open>_dim\<close> equal
  to the list of the dimensions after the first, except that a list of length one is
  replaced by its only entry.
\<close>

theorem init_parameterized_embedding_shape:
  assumes "table = get_embedding h init_value n (variable_scope (base self))"
    and "shape_list table \<noteq> []"
    and "self' = snd (init_parameterized_embedding get_embedding self init_value n h)"
  shows "fst (init_parameterized_embedding get_embedding self init_value n h) = Inr ()
       \<and> self_num_embeds self' = Some (shape_list table ! 0)
       \<and> self_dim_rank self' = Some (length (shape_list table) - 1)
       \<and> self_dim self' =
           (if length (tl (shape_list table)) = 1
            then Some (DimScalar (tl (shape_list table) ! 0))
            else Some (DimList (tl (shape_list table))))"
proof -
  from assms(2) obtain d ds where shape: "shape_list table = d # ds"
    by (cases "shape_list table") auto
  have emb: "shape_list (get_embedding h init_value n (variable_scope (base self))) = d # ds"
    using shape assms(1) by simp
  show ?thesis
    unfolding assms(3) shape
    by (simp add: init_parameterized_embedding_def add_trainable_variable_def Let_def emb)
qed

theorem init_parameterized_embedding_shape_witness:
  "fst (init_parameterized_embedding (\<lambda>h i n s. Tensor 7 [Static 100, Static 8, Static 4])
          (EmbedderBase_init (\<lambda>h. sample_base) None ()) () (Some (Static 100))
          (sample_hparams None)) = Inr ()
   \<and> self_num_embeds (snd (init_parameterized_embedding
          (\<lambda>h i n s. Tensor 7 [Static 100, Static 8, Static 4])
          (EmbedderBase_init (\<lambda>h. sample_base) None ()) () (Some (Static 100))
          (sample_hparams None))) = Some (Static 100)
   \<and> self_dim_rank (snd (init_parameterized_embedding
          (\<lambda>h i n s. Tensor 7 [Static 100, Static 8, Static 4])
          (EmbedderBase_init (\<lambda>h. sample_base) None ()) () (Some (Static 100))
          (sample_hparams None))) = Some 2
   \<and> self_dim (snd (init_parameterized_embedding
          (\<lambda>h i n s. Tensor 7 [Static 100, Static 8, Static 4])
          (EmbedderBase_init (\<lambda>h. sample_base) None ()) () (Some (Static 100))
          (sample_hparams None))) = Some (DimList [Static 8, Static 4])
   \<and> self_dim (snd (init_parameterized_embedding (\<lambda>h i n s. sample_table)
          (EmbedderBase_init (\<lambda>h. sample_base) None ()) () (Some (Static 5))
          (sample_hparams None))) = Some (DimScalar (Static 3))"
  using init_parameterized_embedding_shape
          [of "Tensor 7 [Static 100, Static 8, Static 4]"
              "\<lambda>h i n s. Tensor 7 [Static 100, Static 8, Static 4]"
              "sample_hparams None" "()" "Some (Static 100)"
              "EmbedderBase_init (\<lambda>h. sample_base) None ()"
              "snd (init_parameterized_embedding
                      (\<lambda>h i n s. Tensor 7 [Static 100, Static 8, Static 4])
                      (EmbedderBase_init (\<lambda>h. sample_base) None ()) () (Some (Static 100))
                      (sample_hparams None))"]
        init_parameterized_embedding_shape
          [of sample_table "\<lambda>h i n s. sample_table"
              "sample_hparams None" "()" "Some (Static 5)"
              "EmbedderBase_init (\<lambda>h. sample_base) None ()"
              "snd (init_parameterized_embedding (\<lambda>h i n s. sample_table)
                      (EmbedderBase_init (\<lambda>h. sample_base) None ()) () (Some (Static 5))
                      (sample_hparams None))"]
  by simp

text \<open>
  C5: \<open>_init_parameterized_embedding\<close> stores the tensor that \<open>get_embedding\<close> returns in
  \<open>_embedding\<close>, and registers it as a trainable variable when \<open>hparams.trainable\<close> is true;
  when it is false the trainable variables stay as they were. So a tensor that was not
  registered before is registered afterwards if and only if \<open>hparams.trainable\<close> is true.
\<close>

theorem init_parameterized_embedding_trainable:
  assumes "table = get_embedding h init_value n (variable_scope (base self))"
    and "self' = snd (init_parameterized_embedding get_embedding self init_value n h)"
  shows "self_embedding self' = Some table
       \<and> trainable_variables (base self') =
           (if trainable h then insert table (trainable_variables (base self))
            else trainable_variables (base self))
       \<and> (table \<notin> trainable_variables (base self) \<longrightarrow>
            (table \<in> trainable_variables (base self')) = trainable h)"
  unfolding assms
  by (simp add: init_parameterized_embedding_def add_trainable_variable_def Let_def
           split: list.splits)

theorem init_parameterized_embedding_trainable_witness:
  "sample_table \<notin> trainable_variables (base (EmbedderBase_init (\<lambda>h. sample_base) None ()))
   \<and> self_embedding (snd (init_parameterized_embedding (\<lambda>h i n s. sample_table)
          (EmbedderBase_init (\<lambda>h. sample_base) None ()) () None
          \<lparr>trainable = False, dropout_rate = 0, dropout_strategy = None\<rparr>)) = Some sample_table
   \<and> sample_table \<notin> trainable_variables (base (snd (init_parameterized_embedding
          (\<lambda>h i n s. sample_table)
          (EmbedderBase_init (\<lambda>h. sample_base) None ()) () None
          \<lparr>trainable = False, dropout_rate = 0, dropout_strategy = None\<rparr>)))
   \<and> sample_table \<in> trainable_variables (base (snd (init_parameterized_embedding
          (\<lambda>h i n s. sample_table)
          (EmbedderBase_init (\<lambda>h. sample_base) None ()) () None
          \<lparr>trainable = True, dropout_rate = 0, dropout_strategy = None\<rparr>)))"
  using init_parameterized_embedding_trainable
          [of sample_table "\<lambda>h i n s. sample_table"
              "\<lparr>trainable = False, dropout_rate = 0, dropout_strategy = None\<rparr>" "()" None
              "EmbedderBase_init (\<lambda>h. sample_base) None ()"
              "snd (init_parameterized_embedding (\<lambda>h i n s. sample_table)
                      (EmbedderBase_init (\<lambda>h. sample_base) None ()) () None
                      \<lparr>trainable = False, dropout_rate = 0, dropout_strategy = None\<rparr>)"]
        init_parameterized_embedding_trainable
          [of sample_table "\<lambda>h i n s. sample_table"
              "\<lparr>trainable = True, dropout_rate = 0, dropout_strategy = None\<rparr>" "()" None
              "EmbedderBase_init (\<lambda>h. sample_base) None ()"
              "snd (init_parameterized_embedding (\<lambda>h i n s. sample_table)
                      (EmbedderBase_init (\<lambda>h. sample_base) None ()) () None
                      \<lparr>trainable = True, dropout_rate = 0, dropout_strategy = None\<rparr>)"]
  by (simp add: EmbedderBase_init_def)

text \<open>
  C6: the property \<open>num_embeds\<close> returns the value given to the constructor, \<open>None\<close>
  included, after any sequence of calls that does not contain
  \<open>_init_parameterized_embedding\<close>. Once \<open>_init_parameterized_embedding\<close> has run on a
  table with a first dimension, the property returns that first dimension instead,
  whatever the constructor was given.
\<close>

theorem num_embeds_property:
  "num_embeds (after_calls (EmbedderBase_init ModuleBase_init n hp) cs) = n
   \<and> (shape_list (get_embedding h init_value n'
          (variable_scope (base (after_calls (EmbedderBase_init ModuleBase_init n hp) cs)))) \<noteq> [] \<longrightarrow>
        num_embeds (after_calls
          (snd (init_parameterized_embedding get_embedding
                  (after_calls (EmbedderBase_init ModuleBase_init n hp) cs) init_value n' h)) cs') =
        Some (shape_list (get_embedding h init_value n'
          (variable_scope (base (after_calls (EmbedderBase_init ModuleBase_init n hp) cs)))) ! 0))"
proof -
  have before: "num_embeds (after_calls (EmbedderBase_init ModuleBase_init n hp) cs) = n"
    by (simp add: after_calls_state num_embeds_def EmbedderBase_init_def)
  have after: "num_embeds (snd (init_parameterized_embedding get_embedding self init_value n' h))
                 = Some (shape_list (get_embedding h init_value n' (variable_scope (base self))) ! 0)"
    if "shape_list (get_embedding h init_value n' (variable_scope (base self))) \<noteq> []" for self
  proof -
    from that obtain d ds
      where "shape_list (get_embedding h init_value n' (variable_scope (base self))) = d # ds"
      by (cases "shape_list (get_embedding h init_value n' (variable_scope (base self)))") auto
    then show ?thesis
      by (simp add: init_parameterized_embedding_def add_trainable_variable_def Let_def
            num_embeds_def)
  qed
  from before after show ?thesis
    by (simp add: after_calls_state)
qed

theorem num_embeds_property_witness:
  "num_embeds (after_calls (EmbedderBase_init (\<lambda>h. sample_base) None ())
      [Num_embeds, Get_dropout_layer (sample_hparams (Some ''item_type'')) None None None,
       Default_hparams]) = None
   \<and> num_embeds (after_calls (EmbedderBase_init (\<lambda>h. sample_base) (Some (Static 9)) ())
      [Get_dropout_layer (sample_hparams None) None None None]) = Some (Static 9)
   \<and> num_embeds (after_calls
        (snd (init_parameterized_embedding (\<lambda>h i n s. sample_table)
                (after_calls (EmbedderBase_init (\<lambda>h. sample_base) (Some (Static 9)) ())
                   [Get_dropout_layer (sample_hparams None) None None None])
                () None (sample_hparams None)))
        [Num_embeds]) = Some (Static 5)"
  using num_embeds_property
          [of "\<lambda>h. sample_base" None "()"
              "[Num_embeds, Get_dropout_layer (sample_hparams (Some ''item_type'')) None None None,
                Default_hparams]"
              "\<lambda>h i n s. sample_table" "sample_hparams None" "()" None "[]"]
        num_embeds_property
          [of "\<lambda>h. sample_base" "Some (Static 9)" "()"
              "[Get_dropout_layer (sample_hparams None) None None None]"
              "\<lambda>h i n s. sample_table" "sample_hparams None" "()" None "[Num_embeds]"]
  by simp

text \<open>
  C8: the strategy in force is the argument \<open>dropout_strategy\<close> when it is not \<open>None\<close>,
  and \<open>hparams.dropout_strategy\<close> otherwise. With an argument the hyperparameter has no
  influence on the outcome; without one the call behaves as if the hyperparameter had
  been passed as the argument; and the strategy named by the ValueError of an unknown
  strategy is the argument.
\<close>

theorem dropout_strategy_argument_overrides:
  "get_dropout_layer self h ir di (Some s) =
     get_dropout_layer self (h\<lparr>dropout_strategy := other\<rparr>) ir di (Some s)
   \<and> get_dropout_layer self h ir di None =
     get_dropout_layer self h ir di (dropout_strategy h)
   \<and> (0 < dropout_rate h \<and> s \<noteq> ''element'' \<and> s \<noteq> ''item'' \<and> s \<noteq> ''item_type'' \<longrightarrow>
        fst (get_dropout_layer self h ir di (Some s)) =
          Inl (ValueError (''Unknown dropout strategy: '' @ s)))"
proof -
  have arg: "get_dropout_layer self h ir di (Some s) =
               get_dropout_layer self (h\<lparr>dropout_strategy := other\<rparr>) ir di (Some s)"
    by (simp add: get_dropout_layer_def Let_def split: option.splits sum.splits)
  have hyper: "get_dropout_layer self h ir di None =
                 get_dropout_layer self h ir di (dropout_strategy h)"
    by (simp add: get_dropout_layer_def Let_def)
  have named: "0 < dropout_rate h \<and> s \<noteq> ''element'' \<and> s \<noteq> ''item'' \<and> s \<noteq> ''item_type'' \<longrightarrow>
                 fst (get_dropout_layer self h ir di (Some s)) =
                   Inl (ValueError (''Unknown dropout strategy: '' @ s))"
    by (simp add: get_dropout_layer_def Let_def format_value_def)
  from arg hyper named show ?thesis by blast
qed

theorem dropout_strategy_argument_overrides_witness:
  "get_dropout_layer sample_self (sample_hparams (Some ''element'')) None None (Some ''item_type'') =
     get_dropout_layer sample_self (sample_hparams (Some ''item_type'')) None None (Some ''item_type'')
   \<and> get_dropout_layer sample_self (sample_hparams (Some ''item_type'')) None None None =
     get_dropout_layer sample_self (sample_hparams (Some ''item_type'')) None None (Some ''item_type'')
   \<and> fst (get_dropout_layer sample_self (sample_hparams (Some ''element'')) None None (Some ''word'')) =
     Inl (ValueError ''Unknown dropout strategy: word'')"
  using dropout_strategy_argument_overrides
          [of sample_self "sample_hparams (Some ''element'')" None None "''item_type''"
              "Some ''item_type''"]
        dropout_strategy_argument_overrides
          [of sample_self "sample_hparams (Some ''item_type'')" None None "''item_type''"
              "Some ''item_type''"]
        dropout_strategy_argument_overrides
          [of sample_self "sample_hparams (Some ''element'')" None None "''word''"
              "Some ''element''"]
  by simp

end
